theory Spec2Isabelle
  imports Complex_Main "HOL-Library.Word" "HOL-Library.Log_Nat"
begin

unbundle bit_operations_syntax

section \<open>JavaScript values shared by the components\<close>

text \<open>
  Exceptions of the runtime are values. \<open>RangeError\<close> is what the typed-array
  primitives throw; \<open>Error\<close> is the plain \<open>new Error(message)\<close> of the sources.
\<close>

datatype js_error = RangeError | Error string

text \<open>
  A sample is a JavaScript number, kept as the rational it stands for. Where a function
  is modelled with exact arithmetic, its text says why that agrees with the doubles of
  the source at the inputs in question; the resamplers are modelled with the rounding
  of doubles, see the section on numbers.
\<close>

type_synonym sample = rat

section \<open>Numbers with the rounding of doubles\<close>

text \<open>
  A JavaScript number is an IEEE double. The model keeps the value of a double as a
  rational and rounds the exact result of each arithmetic operation to the nearest
  value with a significand of 53 bits, ties to the even significand. The exponent range
  is not modelled: the rounding is that of doubles wherever operands and results are
  normal doubles (magnitudes from \<open>2^-1022\<close> up to \<open>2^1024\<close>), which holds for
  everything evaluated below. Division by zero does not occur for positive rates.
\<close>

definition pow2 :: "int \<Rightarrow> rat" where
  "pow2 k = (if 0 \<le> k then 2 ^ nat k else 1 / 2 ^ nat (- k))"

text \<open>For \<open>q > 0\<close>: the exponent \<open>e\<close> with \<open>2^e \<le> q < 2^(e+1)\<close>.\<close>

definition ilog2 :: "rat \<Rightarrow> int" where
  "ilog2 q = (let (a, b) = quotient_of q; k = bitlen a - bitlen b
              in if pow2 k \<le> q then k else k - 1)"

definition roundHalfEven :: "rat \<Rightarrow> int" where
  "roundHalfEven q =
     (let n = \<lfloor>q\<rfloor>; r = q - of_int n
      in if r < 1 / 2 then n else if 1 / 2 < r then n + 1 else if even n then n else n + 1)"

text \<open>Rounding to \<open>p\<close> significant bits.\<close>

definition roundTo :: "nat \<Rightarrow> rat \<Rightarrow> rat" where
  "roundTo p q =
     (if q = 0 then 0
      else (let u = pow2 (ilog2 \<bar>q\<bar> - int p + 1)
            in sgn q * of_int (roundHalfEven (\<bar>q\<bar> / u)) * u))"

definition fl :: "rat \<Rightarrow> rat" where
  "fl q = roundTo 53 q"

text \<open>Storing a number in a \<open>Float32Array\<close> rounds it to 24 significant bits.\<close>

definition fround :: "rat \<Rightarrow> rat" where
  "fround q = roundTo 24 q"

section \<open>Typed-array primitives used by \<open>AudioBuffer\<close>\<close>

text \<open>
  \<open>arr.copyWithin(0, start)\<close>: the elements from \<open>start\<close> to the end are moved to the
  front, what lies behind the moved block keeps its old value. A negative \<open>start\<close>
  counts from the end, a \<open>start\<close> beyond the end copies nothing.
\<close>

definition copyWithin0 :: "int \<Rightarrow> 'a list \<Rightarrow> 'a list" where
  "copyWithin0 start arr =
     (let len = int (length arr);
          from = (if start < 0 then max (len + start) 0 else min start len);
          count = len - from
      in drop (nat from) arr @ drop (nat count) arr)"

text \<open>
  \<open>arr.set(source, offset)\<close> throws a RangeError for a negative offset and when the
  source does not fit behind the offset; otherwise it overwrites in place.
\<close>

definition typed_set :: "'a list \<Rightarrow> 'a list \<Rightarrow> int \<Rightarrow> js_error + 'a list" where
  "typed_set arr source offset =
     (if offset < 0 \<or> int (length source) + offset > int (length arr) then Inl RangeError
      else Inr (take (nat offset) arr @ source @ drop (nat offset + length source) arr))"


section \<open>\<open>AudioBuffer\<close> (src/audio/buffer.ts)\<close>

record AudioBuffer =
  buffer :: "sample list"
  writePosition :: int
  frameSize :: nat

text \<open>The constructor: a zero-filled \<open>Float32Array\<close> of \<open>frameSize * maxFrames\<close>.\<close>

definition newAudioBuffer :: "nat \<Rightarrow> nat \<Rightarrow> AudioBuffer" where
  "newAudioBuffer fs maxFrames =
     \<lparr>buffer = replicate (fs * maxFrames) 0, writePosition = 0, frameSize = fs\<rparr>"

text \<open>
  \<open>push\<close> mutates \<open>writePosition\<close> before it calls \<open>set\<close>; when \<open>set\<close> throws, the
  caller sees the exception and the object keeps the mutated fields. The result is
  therefore the outcome together with the object as it is left.
\<close>

definition push :: "sample list \<Rightarrow> AudioBuffer \<Rightarrow> (js_error + unit) \<times> AudioBuffer" where
  "push samples b =
     (let n = int (length samples);
          cap = int (length (buffer b));
          b1 = (if writePosition b + n > cap
                then (let overflow = writePosition b + n - cap
                      in b\<lparr>buffer := copyWithin0 overflow (buffer b),
                           writePosition := writePosition b - overflow\<rparr>)
                else b)
      in case typed_set (buffer b1) samples (writePosition b1) of
           Inl e \<Rightarrow> (Inl e, b1)
         | Inr arr \<Rightarrow> (Inr (), b1\<lparr>buffer := arr, writePosition := writePosition b1 + n\<rparr>))"


text \<open>\<open>Math.floor(writePosition / frameSize)\<close>; the division by zero of a zero frame
  size is \<open>Infinity\<close> or \<open>NaN\<close> in the source and \<open>None\<close> here.\<close>

definition frameCount :: "AudioBuffer \<Rightarrow> int option" where
  "frameCount b =
     (if frameSize b = 0 then None else Some (writePosition b div int (frameSize b)))"

definition sampleCount :: "AudioBuffer \<Rightarrow> int" where
  "sampleCount b = writePosition b"



text \<open>The samples the buffer holds, oldest first.\<close>

definition contents :: "AudioBuffer \<Rightarrow> sample list" where
  "contents b = take (nat (writePosition b)) (buffer b)"

definition wellformed :: "AudioBuffer \<Rightarrow> bool" where
  "wellformed b = (0 \<le> writePosition b \<and> writePosition b \<le> int (length (buffer b)))"

section \<open>The mu-law codec (src/audio/converter.ts)\<close>

definition MULAW_BIAS :: int where
  "MULAW_BIAS = 0x84"

definition MULAW_MAX :: int where
  "MULAW_MAX = 32635"

definition MULAW_DECODE_TABLE :: "int list" where
  "MULAW_DECODE_TABLE = [
    -32124, -31100, -30076, -29052, -28028, -27004, -25980, -24956,
    -23932, -22908, -21884, -20860, -19836, -18812, -17788, -16764,
    -15996, -15484, -14972, -14460, -13948, -13436, -12924, -12412,
    -11900, -11388, -10876, -10364,  -9852,  -9340,  -8828,  -8316,
     -7932,  -7676,  -7420,  -7164,  -6908,  -6652,  -6396,  -6140,
     -5884,  -5628,  -5372,  -5116,  -4860,  -4604,  -4348,  -4092,
     -3900,  -3772,  -3644,  -3516,  -3388,  -3260,  -3132,  -3004,
     -2876,  -2748,  -2620,  -2492,  -2364,  -2236,  -2108,  -1980,
     -1884,  -1820,  -1756,  -1692,  -1628,  -1564,  -1500,  -1436,
     -1372,  -1308,  -1244,  -1180,  -1116,  -1052,   -988,   -924,
      -876,   -844,   -812,   -780,   -748,   -716,   -684,   -652,
      -620,   -588,   -556,   -524,   -492,   -460,   -428,   -396,
      -372,   -356,   -340,   -324,   -308,   -292,   -276,   -260,
      -244,   -228,   -212,   -196,   -180,   -164,   -148,   -132,
      -120,   -112,   -104,    -96,    -88,    -80,    -72,    -64,
       -56,    -48,    -40,    -32,    -24,    -16,     -8,      0,
     32124,  31100,  30076,  29052,  28028,  27004,  25980,  24956,
     23932,  22908,  21884,  20860,  19836,  18812,  17788,  16764,
     15996,  15484,  14972,  14460,  13948,  13436,  12924,  12412,
     11900,  11388,  10876,  10364,   9852,   9340,   8828,   8316,
      7932,   7676,   7420,   7164,   6908,   6652,   6396,   6140,
      5884,   5628,   5372,   5116,   4860,   4604,   4348,   4092,
      3900,   3772,   3644,   3516,   3388,   3260,   3132,   3004,
      2876,   2748,   2620,   2492,   2364,   2236,   2108,   1980,
      1884,   1820,   1756,   1692,   1628,   1564,   1500,   1436,
      1372,   1308,   1244,   1180,   1116,   1052,    988,    924,
       876,    844,    812,    780,    748,    716,    684,    652,
       620,    588,    556,    524,    492,    460,    428,    396,
       372,    356,    340,    324,    308,    292,    276,    260,
       244,    228,    212,    196,    180,    164,    148,    132,
       120,    112,    104,     96,     88,     80,     72,     64,
        56,     48,     40,     32,     24,     16,      8,      0]"

text \<open>\<open>Math.round\<close> rounds to the nearest integer, a half towards plus infinity.\<close>

definition js_round :: "rat \<Rightarrow> int" where
  "js_round v = \<lfloor>v + 1 / 2\<rfloor>"

text \<open>
  The segment search of \<open>encodeMulawSample\<close>:
  \<^verbatim>\<open>while ((pcm & mask) === 0 && exponent > 0) { exponent--; mask >>= 1; }\<close>
  as a recursion on the exponent, which the loop counts down.
\<close>

fun findSegment :: "int \<Rightarrow> nat \<Rightarrow> int \<Rightarrow> nat" where
  "findSegment pcm 0 msk = 0"
| "findSegment pcm (Suc e) msk =
     (if pcm AND msk = 0 then findSegment pcm e (drop_bit 1 msk) else Suc e)"

text \<open>
  \<open>encodeMulawSample\<close>, in two parts: from the sign to the complemented byte, on the
  rounded sample; and the clamping and rounding before it. The sample is a double. At
  the inputs the properties below are about (a 16-bit integer divided by 32768) the
  product \<open>clamped * 32767\<close> has at most 31 significant bits, so the double arithmetic
  is exact and agrees with the rational arithmetic here.
\<close>

definition encodeMulawPcm :: "int \<Rightarrow> int" where
  "encodeMulawPcm pcm0 =
     (let sign = (if pcm0 < 0 then 0x80 else 0x00);
          pcm1 = (if pcm0 < 0 then - pcm0 else pcm0);
          pcm = min (pcm1 + MULAW_BIAS) MULAW_MAX;
          exponent = findSegment pcm 7 0x4000;
          mantissa = drop_bit (exponent + 3) pcm AND 0x0F
      in NOT (sign OR push_bit 4 (int exponent) OR mantissa) AND 0xFF)"

definition encodeMulawSample :: "sample \<Rightarrow> int" where
  "encodeMulawSample sample =
     (let clamped = max (- 1) (min 1 sample);
          pcm = js_round (clamped * 32767)
      in encodeMulawPcm pcm)"

text \<open>A \<open>Buffer\<close> is a list of bytes; storing a number in it keeps its low 8 bits.\<close>

type_synonym byte = "8 word"

definition pcmToMulaw :: "sample list \<Rightarrow> byte list" where
  "pcmToMulaw pcm = map (\<lambda>s. word_of_int (encodeMulawSample s)) pcm"

definition mulawToPcm :: "byte list \<Rightarrow> sample list" where
  "mulawToPcm mulaw = map (\<lambda>b. of_int (MULAW_DECODE_TABLE ! unat b) / 32768) mulaw"

definition int16ToFloat32 :: "int list \<Rightarrow> sample list" where
  "int16ToFloat32 int16 = map (\<lambda>v. of_int v / 32768) int16"

text \<open>
  The width of the quantization step of the segment a 16-bit value \<open>x\<close> falls in:
  the segment is the one the encoder's own search finds for the biased magnitude of \<open>x\<close>,
  and the codes of segment \<open>e\<close> are \<open>2 ^ (e + 3)\<close> apart.
\<close>

definition segmentStep :: "int \<Rightarrow> int" where
  "segmentStep x = 2 ^ (findSegment (min (\<bar>x\<bar> + MULAW_BIAS) MULAW_MAX) 7 0x4000 + 3)"

text \<open>
  The decode table in closed form: entry \<open>i\<close> is the value of the code \<open>255 - i\<close>,
  with the sign in bit 7, the segment in bits 4 to 6 and the mantissa in bits 0 to 3.
\<close>

definition mulawLinear :: "nat \<Rightarrow> int" where
  "mulawLinear i =
     (let e = 7 - (i mod 128) div 16; m = 15 - i mod 16;
          mag = (8 * int m + 132) * 2 ^ e - 132
      in if i < 128 then - mag else mag)"

section \<open>The resamplers (src/audio/resampler.ts)\<close>

text \<open>
  The stateless \<open>resample\<close>. \<open>audio[i] ?? d\<close> is \<open>d\<close> when the index is outside the
  array. The allocation \<open>new Float32Array(outputLength)\<close> is taken to succeed.
\<close>

definition resample :: "sample list \<Rightarrow> rat \<Rightarrow> rat \<Rightarrow> sample list" where
  "resample audio from_rate to_rate =
     (if from_rate = to_rate then audio
      else (let ratio = fl (from_rate / to_rate);
                outputLength = nat \<lceil>fl (of_nat (length audio) / ratio)\<rceil>
            in map (\<lambda>i.
                 let srcPosition = fl (of_nat i * ratio);
                     srcIndex = \<lfloor>srcPosition\<rfloor>;
                     fraction = fl (srcPosition - of_int srcIndex);
                     sample1 = (if 0 \<le> srcIndex \<and> nat srcIndex < length audio
                                then audio ! nat srcIndex else 0);
                     j = min (srcIndex + 1) (int (length audio) - 1);
                     sample2 = (if 0 \<le> j \<and> nat j < length audio then audio ! nat j else sample1)
                 in fround (fl (sample1 + fl (fl (sample2 - sample1) * fraction))))
               [0..<outputLength]))"

record LinearResampler =
  fromRate :: rat
  toRate :: rat
  ratio :: rat
  fractionalPosition :: rat

definition createResampler :: "rat \<Rightarrow> rat \<Rightarrow> LinearResampler" where
  "createResampler from_rate to_rate =
     \<lparr>fromRate = from_rate, toRate = to_rate, ratio = fl (from_rate / to_rate),
      fractionalPosition = 0\<rparr>"

text \<open>
  The inner loop of \<open>process\<close>,
  \<^verbatim>\<open>while (this.fractionalPosition >= 1) { this.fractionalPosition -= 1; inputIndex++; }\<close>.
  It does not end when the position is so large that subtracting 1 does not change the
  double; not returning is \<open>None\<close>.
\<close>

partial_function (option) advance :: "rat \<Rightarrow> nat \<Rightarrow> (rat \<times> nat) option" where
  "advance f inputIndex =
     (if 1 \<le> f then advance (fl (f - 1)) (inputIndex + 1) else Some (f, inputIndex))"

declare advance.simps [code]

text \<open>The outer loop, with the output written so far.\<close>

partial_function (option) processLoop ::
    "sample list \<Rightarrow> rat \<Rightarrow> nat \<Rightarrow> nat \<Rightarrow> nat \<Rightarrow> rat \<Rightarrow> sample list
      \<Rightarrow> (sample list \<times> rat) option" where
  "processLoop inp rat outputLength inputIndex outputIndex f acc =
     (if outputIndex < outputLength \<and> inputIndex < length inp then
        (let currentSample = inp ! inputIndex;
             nextSample = inp ! (min (inputIndex + 1) (length inp - 1));
             out = fround (fl (currentSample + fl (fl (nextSample - currentSample) * f)))
         in (case advance (fl (f + rat)) inputIndex of
               None \<Rightarrow> None
             | Some p \<Rightarrow>
                 processLoop inp rat outputLength (snd p) (outputIndex + 1) (fst p) (acc @ [out])))
      else Some (acc, f))"

declare processLoop.simps [code]

definition process ::
    "sample list \<Rightarrow> LinearResampler \<Rightarrow> (sample list \<times> LinearResampler) option" where
  "process inp r =
     (if fromRate r = toRate r then Some (inp, r)
      else (let outputLength = nat \<lceil>fl (of_nat (length inp) / ratio r)\<rceil>
            in (case processLoop inp (ratio r) outputLength 0 0 (fractionalPosition r) [] of
                  None \<Rightarrow> None
                | Some p \<Rightarrow> Some (fst p, r\<lparr>fractionalPosition := snd p\<rparr>))))"

section \<open>The Twilio media handler (src/twilio/media-streams.ts)\<close>

text \<open>
  \<open>parseInt(string, 10)\<close>: leading white space is skipped, one sign is read, then the
  longest run of decimal digits; no digit gives \<open>NaN\<close>, here \<open>None\<close>. The result is
  the double nearest to the integer read. (Past 20 significant digits an implementation
  may replace digits by zeros before it rounds; that is not modelled.) A string is the
  list of its code units; the white space below 256 is the white space of the model.
\<close>

definition isWhiteSpace :: "char \<Rightarrow> bool" where
  "isWhiteSpace c = ((of_char c :: nat) \<in> {0x09, 0x0A, 0x0B, 0x0C, 0x0D, 0x20, 0xA0})"

definition isDigit :: "char \<Rightarrow> bool" where
  "isDigit c = (48 \<le> (of_char c :: nat) \<and> (of_char c :: nat) \<le> 57)"

definition digitsValue :: "string \<Rightarrow> int" where
  "digitsValue ds = foldl (\<lambda>acc c. 10 * acc + (of_char c - 48)) 0 ds"

definition parseInt10 :: "string \<Rightarrow> rat option" where
  "parseInt10 str =
     (let s = dropWhile isWhiteSpace str;
          sgn = (case s of c # _ \<Rightarrow> if c = CHR ''-'' then - 1 else 1 | [] \<Rightarrow> 1);
          s1 = (case s of c # r \<Rightarrow> if c = CHR ''-'' \<or> c = CHR ''+'' then r else s | [] \<Rightarrow> s);
          z = takeWhile isDigit s1
      in if z = [] then None else Some (fl (of_int (sgn * digitsValue z))))"

datatype TwilioStreamEvent = Connected | Start | Media | Stop | Dtmf | Mark

text \<open>Of the objects nested in a message, the fields the handler reads.\<close>

record StartInfo =
  start_streamSid :: string
  start_callSid :: string

record MediaInfo =
  timestamp :: string
  payload :: string

record DtmfInfo =
  digit :: string

record TwilioMediaMessage =
  event :: TwilioStreamEvent
  start :: "StartInfo option"
  media :: "MediaInfo option"
  dtmf :: "DtmfInfo option"

record TwilioMediaHandler =
  streamSid :: "string option"
  callSid :: "string option"
  mediaSequence :: nat

definition newTwilioMediaHandler :: TwilioMediaHandler where
  "newTwilioMediaHandler = \<lparr>streamSid = None, callSid = None, mediaSequence = 0\<rparr>"

text \<open>What the handler emits to its listeners, in order.\<close>

datatype TwilioMediaHandlerEvent =
    EmitConnected
  | EmitStart string string
  | EmitAudio "sample list" rat
  | EmitStop
  | EmitDtmf string

text \<open>
  \<open>handleMediaPayload\<close>. \<open>Buffer.from(s, 'base64')\<close> belongs to the runtime and is the
  parameter \<open>fromBase64\<close>; \<open>Date.now()\<close> is the parameter \<open>now\<close>. In
  \<open>parseInt(timestamp, 10) || Date.now()\<close> the right operand is taken when the left one is
  falsy: \<open>NaN\<close> or zero.
\<close>

definition handleMediaPayload ::
    "(string \<Rightarrow> byte list) \<Rightarrow> int \<Rightarrow> string \<Rightarrow> string \<Rightarrow> TwilioMediaHandlerEvent list" where
  "handleMediaPayload fromBase64 now base64Payload ts =
     (let mulaw = fromBase64 base64Payload;
          pcm = mulawToPcm mulaw;
          timestampMs = (case parseInt10 ts of
                           None \<Rightarrow> of_int now
                         | Some n \<Rightarrow> if n = 0 then of_int now else n)
      in [EmitAudio pcm timestampMs])"

text \<open>
  \<open>handleMessage\<close>: the new state of the handler and what it emitted. A string in a
  condition is truthy when it is not empty. None of the modelled steps throws, so the
  \<open>catch\<close> branch of the source has no counterpart.
\<close>

definition handleMessage ::
    "(string \<Rightarrow> byte list) \<Rightarrow> int \<Rightarrow> TwilioMediaMessage \<Rightarrow> TwilioMediaHandler
      \<Rightarrow> TwilioMediaHandler \<times> TwilioMediaHandlerEvent list" where
  "handleMessage fromBase64 now msg h =
     (case event msg of
        Connected \<Rightarrow> (h, [EmitConnected])
      | Start \<Rightarrow>
          (case start msg of
             Some st \<Rightarrow>
               (h\<lparr>streamSid := Some (start_streamSid st), callSid := Some (start_callSid st)\<rparr>,
                [EmitStart (start_streamSid st) (start_callSid st)])
           | None \<Rightarrow> (h, []))
      | Media \<Rightarrow>
          (case media msg of
             Some md \<Rightarrow>
               if payload md \<noteq> [] then (h, handleMediaPayload fromBase64 now (payload md) (timestamp md))
               else (h, [])
           | None \<Rightarrow> (h, []))
      | Stop \<Rightarrow> (h\<lparr>streamSid := None, callSid := None\<rparr>, [EmitStop])
      | Dtmf \<Rightarrow>
          (case dtmf msg of
             Some d \<Rightarrow> if digit d \<noteq> [] then (h, [EmitDtmf (digit d)]) else (h, [])
           | None \<Rightarrow> (h, []))
      | Mark \<Rightarrow> (h, []))"

definition isActive :: "TwilioMediaHandler \<Rightarrow> bool" where
  "isActive h = (streamSid h \<noteq> None)"

section \<open>The PersonaPlex wire protocol (src/personaplex/protocol.ts)\<close>

datatype PersonaPlexMessage =
    Handshake
  | Audio "byte list"
  | Text string
  | Control string
  | Metadata "byte list"
  | ErrorMessage string
  | Ping
  | Unknown int

text \<open>
  \<open>payload.toString('utf-8')\<close>: the string is kept as the bytes of its encoding, which
  for a payload of ASCII characters is the string of the source. The decoding of longer
  sequences, and the replacement character the source puts for bytes that are not
  UTF-8, are not modelled; no property below reads the text of a message. The metadata
  message carries its payload as it came; \<open>JSON.parse\<close> is not modelled.
\<close>

definition bytesToString :: "byte list \<Rightarrow> string" where
  "bytesToString bs = map (\<lambda>b. char_of (unat b)) bs"

definition decodeControlAction :: "byte option \<Rightarrow> string" where
  "decodeControlAction code =
     (case code of
        None \<Rightarrow> ''unknown''
      | Some c \<Rightarrow>
          if c = 0x00 then ''start''
          else if c = 0x01 then ''endTurn''
          else if c = 0x02 then ''pause''
          else if c = 0x03 then ''restart''
          else ''unknown'')"

definition decodeMessage :: "byte list \<Rightarrow> PersonaPlexMessage" where
  "decodeMessage data =
     (case data of
        [] \<Rightarrow> Unknown (- 1)
      | messageType # rest \<Rightarrow>
          if messageType = 0x00 then Handshake
          else if messageType = 0x01 then Audio rest
          else if messageType = 0x02 then Text (bytesToString rest)
          else if messageType = 0x03
            then Control (decodeControlAction (case rest of [] \<Rightarrow> None | b # _ \<Rightarrow> Some b))
          else if messageType = 0x04 then Metadata rest
          else if messageType = 0x05 then ErrorMessage (bytesToString rest)
          else if messageType = 0x06 then Ping
          else Unknown (uint messageType))"

definition encodeAudioMessage :: "byte list \<Rightarrow> byte list" where
  "encodeAudioMessage opusData = 0x01 # opusData"

section \<open>The PersonaPlex client (src/personaplex/client.ts)\<close>

text \<open>A number in a template string, for the naturals and integers the client prints.\<close>

definition digitChar :: "nat \<Rightarrow> char" where
  "digitChar d = ''0123456789'' ! d"

fun showNat :: "nat \<Rightarrow> string" where
  "showNat n = (if n < 10 then [digitChar n]
                else showNat (n div 10) @ [digitChar (n mod 10)])"

declare showNat.simps [simp del]

definition showInt :: "int \<Rightarrow> string" where
  "showInt i = (if i < 0 then CHR ''-'' # showNat (nat (- i)) else showNat (nat i))"

datatype ReadyState = CONNECTING | OPEN | CLOSING | CLOSED

record PersonaPlexConfig =
  url :: string
  voicePrompt :: string
  textPrompt :: string

record PersonaPlexClientOptions =
  opt_config :: PersonaPlexConfig
  opt_autoReconnect :: "bool option"
  opt_maxReconnectAttempts :: "nat option"
  opt_reconnectDelay :: "rat option"

text \<open>
  The fields of the class. \<open>ws\<close> is \<open>None\<close> for \<open>null\<close> and otherwise the \<open>readyState\<close> of
  the socket the field refers to. \<open>closeListener\<close> says that \<open>close()\<close> has put its
  \<open>once('close')\<close> listener on the socket. The client has one socket alive at a time (a
  socket is only made after the one before it has closed, or is dropped by \<open>close()\<close>
  with \<open>isConnecting\<close> still set), and the socket events below are the events of that
  socket.
\<close>

record PersonaPlexClient =
  ws :: "ReadyState option"
  config :: PersonaPlexConfig
  autoReconnect :: bool
  maxReconnectAttempts :: nat
  reconnectDelay :: rat
  reconnectAttempts :: nat
  isConnecting :: bool
  isReady :: bool
  shouldReconnect :: bool
  closeListener :: bool

definition newPersonaPlexClient :: "PersonaPlexClientOptions \<Rightarrow> PersonaPlexClient" where
  "newPersonaPlexClient options =
     \<lparr>ws = None,
      config = opt_config options,
      autoReconnect = (case opt_autoReconnect options of Some a \<Rightarrow> a | None \<Rightarrow> False),
      maxReconnectAttempts = (case opt_maxReconnectAttempts options of Some m \<Rightarrow> m | None \<Rightarrow> 5),
      reconnectDelay = (case opt_reconnectDelay options of Some d \<Rightarrow> d | None \<Rightarrow> 1000),
      reconnectAttempts = 0,
      isConnecting = False,
      isReady = False,
      shouldReconnect = True,
      closeListener = False\<rparr>"

datatype ClientEvent =
    EvConnected
  | EvDisconnected string
  | EvError string
  | EvAudio "byte list"
  | EvText string
  | EvReady
  | EvMessage PersonaPlexMessage

text \<open>
  The two callbacks the client hands to \<open>setTimeout\<close>: the retry of \<open>connectInternal\<close>
  after a close before the handshake, and the \<open>connect()\<close> of \<open>attemptReconnect\<close>.
\<close>

datatype TimerAction = RetryConnectInternal | Reconnect

text \<open>
  What a step does to the outside, in order: events emitted to the listeners, timers
  set, operations on the socket, and the settling of promises. Every
  \<open>connectInternal\<close> of a retry settles the promise of the attempt before it
  (\<open>connectInternal().then(resolve).catch(reject)\<close>), so \<open>ResolveConnect\<close> and
  \<open>RejectConnect\<close> settle the promise of the \<open>connect()\<close> call that started the chain.
  \<open>Threw\<close> is an exception thrown to the caller. Console output is not modelled.
\<close>

datatype Effect =
    Emit ClientEvent
  | SetTimeout rat TimerAction
  | OpenSocket
  | SocketSend "byte list"
  | SocketClose
  | ResolveConnect
  | RejectConnect string
  | ResolveClose
  | Threw js_error

text \<open>
  \<open>connectInternal\<close>. \<open>new URL(config.url)\<close> throws for a string that is no URL; which
  strings are URLs is the parameter \<open>isUrl\<close>.
\<close>

definition connectInternal ::
    "(string \<Rightarrow> bool) \<Rightarrow> PersonaPlexClient \<Rightarrow> PersonaPlexClient \<times> Effect list" where
  "connectInternal isUrl c =
     (if isUrl (url (config c))
      then (c\<lparr>ws := Some CONNECTING, closeListener := False\<rparr>, [OpenSocket])
      else (c\<lparr>isConnecting := False\<rparr>, [RejectConnect ''Invalid URL'']))"

definition connect ::
    "(string \<Rightarrow> bool) \<Rightarrow> PersonaPlexClient \<Rightarrow> PersonaPlexClient \<times> Effect list" where
  "connect isUrl c =
     (if ws c = Some OPEN then (c, [ResolveConnect])
      else if isConnecting c then (c, [ResolveConnect])
      else connectInternal isUrl
             (c\<lparr>isConnecting := True, shouldReconnect := True, reconnectAttempts := 0\<rparr>))"

text \<open>The listener of the socket's \<open>open\<close> event.\<close>

definition onOpen :: "PersonaPlexClient \<Rightarrow> PersonaPlexClient \<times> Effect list" where
  "onOpen c =
     (c\<lparr>ws := map_option (\<lambda>_. OPEN) (ws c), reconnectAttempts := 0\<rparr>, [Emit EvConnected])"

definition clientHandleMessage ::
    "byte list \<Rightarrow> PersonaPlexClient \<Rightarrow> PersonaPlexClient \<times> Effect list" where
  "clientHandleMessage data c =
     (let message = decodeMessage data
      in case message of
           Handshake \<Rightarrow> (c\<lparr>isReady := True\<rparr>, [Emit (EvMessage message), Emit EvReady, ResolveConnect])
         | Audio d \<Rightarrow> (c, [Emit (EvMessage message), Emit (EvAudio d)])
         | Text t \<Rightarrow> (c, [Emit (EvMessage message), Emit (EvText t)])
         | ErrorMessage e \<Rightarrow> (c, [Emit (EvMessage message), Emit (EvError e)])
         | _ \<Rightarrow> (c, [Emit (EvMessage message)]))"

text \<open>
  The delays are products of doubles: \<open>reconnectDelay * Math.pow(b, n)\<close> is the
  rounded product of \<open>reconnectDelay\<close> and the rounded power. (\<open>Math.pow\<close> is taken to
  round correctly; the powers of 2 and, up to \<open>n = 33\<close>, the powers of 1.5 are doubles
  themselves.)

  \<open>attemptReconnect\<close> up to its \<open>await\<close>: the \<open>connect()\<close> behind the timer is the timer
  action \<open>Reconnect\<close>.
\<close>

definition attemptReconnect :: "PersonaPlexClient \<Rightarrow> PersonaPlexClient \<times> Effect list" where
  "attemptReconnect c =
     (if reconnectAttempts c \<ge> maxReconnectAttempts c
      then (c, [Emit (EvError ''Max reconnection attempts reached'')])
      else (let c1 = c\<lparr>reconnectAttempts := reconnectAttempts c + 1\<rparr>;
                delay = fl (reconnectDelay c1 * fl (2 ^ (reconnectAttempts c1 - 1)))
            in (c1, [SetTimeout delay Reconnect])))"

text \<open>
  The listener of the socket's \<open>close\<close> event that \<open>connectInternal\<close> installs.
  \<open>reason\<close> is \<open>None\<close> when the event carries no reason.
\<close>

definition onClose ::
    "int \<Rightarrow> string option \<Rightarrow> PersonaPlexClient \<Rightarrow> PersonaPlexClient \<times> Effect list" where
  "onClose code reason c =
     (if \<not> isReady c then
        (if shouldReconnect c \<and> reconnectAttempts c < maxReconnectAttempts c
         then (let c1 = c\<lparr>reconnectAttempts := reconnectAttempts c + 1\<rparr>;
                   delay = fl (reconnectDelay c1 * fl ((3 / 2) ^ reconnectAttempts c1))
               in (c1\<lparr>ws := None\<rparr>, [SetTimeout delay RetryConnectInternal]))
         else (c\<lparr>isConnecting := False\<rparr>,
               [RejectConnect (''Failed to connect after '' @ showNat (reconnectAttempts c)
                                @ '' attempts: Connection closed'')]))
      else
        (let c1 = c\<lparr>isConnecting := False, isReady := False\<rparr>;
             said = Emit (EvDisconnected
                            (case reason of Some r \<Rightarrow> r | None \<Rightarrow> ''Code: '' @ showInt code))
         in if autoReconnect c1 \<and> shouldReconnect c1
            then (let (c2, effs) = attemptReconnect c1 in (c2, said # effs))
            else (c1, [said])))"

text \<open>
  The whole \<open>close\<close> event: the socket is closed, the listener above runs, and then the
  listener of \<open>close()\<close> if it is there.
\<close>

definition socketClosed ::
    "int \<Rightarrow> string option \<Rightarrow> PersonaPlexClient \<Rightarrow> PersonaPlexClient \<times> Effect list" where
  "socketClosed code reason c =
     (let (c1, effs) = onClose code reason (c\<lparr>ws := map_option (\<lambda>_. CLOSED) (ws c)\<rparr>)
      in if closeListener c
         then (c1\<lparr>ws := None, isReady := False, closeListener := False\<rparr>, effs @ [ResolveClose])
         else (c1, effs))"

definition sendAudio :: "byte list \<Rightarrow> PersonaPlexClient \<Rightarrow> js_error + Effect list" where
  "sendAudio opusData c =
     (if \<not> isReady c \<or> ws c = None \<or> ws c \<noteq> Some OPEN
      then Inl (Error ''Client is not connected'')
      else Inr [SocketSend (encodeAudioMessage opusData)])"

definition connected :: "PersonaPlexClient \<Rightarrow> bool" where
  "connected c = (isReady c \<and> ws c = Some OPEN)"

text \<open>
  \<open>close()\<close>: on an open socket the promise is resolved by the \<open>close\<close> event, see
  \<open>socketClosed\<close>.
\<close>

definition close :: "PersonaPlexClient \<Rightarrow> PersonaPlexClient \<times> Effect list" where
  "close c =
     (let c1 = c\<lparr>shouldReconnect := False\<rparr>
      in case ws c1 of
           None \<Rightarrow> (c1, [ResolveClose])
         | Some rs \<Rightarrow>
             if rs = OPEN
             then (c1\<lparr>ws := Some CLOSING, closeListener := True\<rparr>, [SocketClose])
             else (c1\<lparr>ws := None, isReady := False, closeListener := True\<rparr>, [ResolveClose]))"

text \<open>What can happen to a client: calls of its methods, socket events, timers.\<close>

datatype ClientInput =
    CallConnect
  | CallSendAudio "byte list"
  | CallClose
  | WsOpen
  | WsMessage "byte list"
  | WsError string
  | WsClose int "string option"
  | TimerFires TimerAction

definition step ::
    "(string \<Rightarrow> bool) \<Rightarrow> ClientInput \<Rightarrow> PersonaPlexClient \<Rightarrow> PersonaPlexClient \<times> Effect list" where
  "step isUrl i c =
     (case i of
        CallConnect \<Rightarrow> connect isUrl c
      | CallSendAudio d \<Rightarrow> (c, case sendAudio d c of Inl e \<Rightarrow> [Threw e] | Inr effs \<Rightarrow> effs)
      | CallClose \<Rightarrow> close c
      | WsOpen \<Rightarrow> onOpen c
      | WsMessage d \<Rightarrow> clientHandleMessage d c
      | WsError e \<Rightarrow> (c, [Emit (EvError e)])
      | WsClose code reason \<Rightarrow> socketClosed code reason c
      | TimerFires RetryConnectInternal \<Rightarrow> connectInternal isUrl c
      | TimerFires Reconnect \<Rightarrow> connect isUrl c)"

text \<open>A run: the inputs one after the other, with everything they did.\<close>

fun run ::
    "(string \<Rightarrow> bool) \<Rightarrow> ClientInput list \<Rightarrow> PersonaPlexClient \<Rightarrow> PersonaPlexClient \<times> Effect list" where
  "run isUrl [] c = (c, [])"
| "run isUrl (i # is) c =
     (let (c1, e1) = step isUrl i c; (c2, e2) = run isUrl is c1 in (c2, e1 @ e2))"

text \<open>
  The run in which every attempt ends with a close of a socket that never opened, and
  every retry timer fires: \<open>k\<close> times a \<open>close\<close> event and the timer behind it.
\<close>

definition closesBeforeOpen :: "nat \<Rightarrow> int \<Rightarrow> string option \<Rightarrow> ClientInput list" where
  "closesBeforeOpen k code reason =
     concat (replicate k [WsClose code reason, TimerFires RetryConnectInternal])"

text \<open>Options for the examples: the configuration of the class comment of the source.\<close>

definition exampleOptions :: "nat \<Rightarrow> PersonaPlexClientOptions" where
  "exampleOptions m =
     \<lparr>opt_config = \<lparr>url = ''wss://localhost:8998/api/chat'', voicePrompt = ''NATF2.pt'',
                     textPrompt = ''You are a helpful assistant.''\<rparr>,
      opt_autoReconnect = Some True,
      opt_maxReconnectAttempts = Some m,
      opt_reconnectDelay = Some 1000\<rparr>"


text \<open>A client that has connected and received the handshake.\<close>

definition readyClient :: "nat \<Rightarrow> PersonaPlexClient" where
  "readyClient m = fst (run (\<lambda>_. True) [CallConnect, WsOpen, WsMessage [0x00]]
                          (newPersonaPlexClient (exampleOptions m)))"

section \<open>The orchestrator \<open>VoiceBot\<close> (src/voice-bot.ts)\<close>

text \<open>
  \<open>opusCodec\<close> says whether the field holds a codec (it is \<open>null\<close> after \<open>cleanup\<close>);
  the codec itself is the \<open>opusscript\<close> package, outside the repository.
\<close>

record VoiceBot =
  personaplexConfig :: PersonaPlexConfig
  personaplexClient :: "PersonaPlexClient option"
  inputBuffer :: "AudioBuffer option"
  isSessionActive :: bool
  opusCodec :: bool
  inputSampleRate :: rat

definition newVoiceBot :: "PersonaPlexConfig \<Rightarrow> VoiceBot" where
  "newVoiceBot cfg =
     \<lparr>personaplexConfig = cfg, personaplexClient = None, inputBuffer = None,
      isSessionActive = False, opusCodec = True, inputSampleRate = 8000\<rparr>"

datatype VoiceBotEvent = BotReady | BotAudio "sample list" | BotText string | BotError string | BotEnded

text \<open>
  The listeners \<open>startSession\<close> puts on the client, one per event of the client.
  \<open>decode\<close> is the decoder of the codec; \<open>None\<close> is a decoder that throws, which the
  listener catches and logs.
\<close>

definition botListener ::
    "(byte list \<Rightarrow> sample list option) \<Rightarrow> ClientEvent \<Rightarrow> VoiceBot \<Rightarrow> VoiceBot \<times> VoiceBotEvent list" where
  "botListener decode ev b =
     (case ev of
        EvAudio opusData \<Rightarrow>
          (if opusCodec b
           then (case decode opusData of Some pcm \<Rightarrow> (b, [BotAudio pcm]) | None \<Rightarrow> (b, []))
           else (b, []))
      | EvText t \<Rightarrow> (b, [BotText t])
      | EvError e \<Rightarrow> (b, [BotError e])
      | EvDisconnected _ \<Rightarrow>
          (if isSessionActive b then (b\<lparr>isSessionActive := False\<rparr>, [BotEnded]) else (b, []))
      | _ \<Rightarrow> (b, []))"

text \<open>The events among the effects of a client step reach the listeners in order.\<close>

fun deliver ::
    "(byte list \<Rightarrow> sample list option) \<Rightarrow> Effect list \<Rightarrow> VoiceBot \<Rightarrow> VoiceBot \<times> VoiceBotEvent list" where
  "deliver decode [] b = (b, [])"
| "deliver decode (e # es) b =
     (case e of
        Emit ev \<Rightarrow>
          (let (b1, o1) = botListener decode ev b; (b2, o2) = deliver decode es b1
           in (b2, o1 @ o2))
      | _ \<Rightarrow> deliver decode es b)"

text \<open>Inputs to the client the bot holds, with the listeners run on what the client emits.\<close>

definition botClientInput ::
    "(byte list \<Rightarrow> sample list option) \<Rightarrow> (string \<Rightarrow> bool) \<Rightarrow> ClientInput \<Rightarrow> VoiceBot
      \<Rightarrow> VoiceBot \<times> VoiceBotEvent list" where
  "botClientInput decode isUrl i b =
     (case personaplexClient b of
        None \<Rightarrow> (b, [])
      | Some c \<Rightarrow>
          (let (c1, effs) = step isUrl i c
           in deliver decode effs (b\<lparr>personaplexClient := Some c1\<rparr>)))"

fun botClientInputs ::
    "(byte list \<Rightarrow> sample list option) \<Rightarrow> (string \<Rightarrow> bool) \<Rightarrow> ClientInput list \<Rightarrow> VoiceBot
      \<Rightarrow> VoiceBot \<times> VoiceBotEvent list" where
  "botClientInputs decode isUrl [] b = (b, [])"
| "botClientInputs decode isUrl (i # is) b =
     (let (b1, o1) = botClientInput decode isUrl i b;
          (b2, o2) = botClientInputs decode isUrl is b1
      in (b2, o1 @ o2))"

text \<open>
  \<open>cleanup\<close>. \<open>await this.personaplexClient.close()\<close> returns at once unless the
  socket is open; on an open socket it returns when the \<open>close\<close> event has come.
  \<open>during\<close> are the messages that arrive on the socket before that event, \<open>code\<close> and
  \<open>reason\<close> are those of the event.
\<close>

definition cleanup ::
    "(byte list \<Rightarrow> sample list option) \<Rightarrow> (string \<Rightarrow> bool) \<Rightarrow> byte list list \<Rightarrow> int \<Rightarrow> string option
      \<Rightarrow> VoiceBot \<Rightarrow> VoiceBot \<times> VoiceBotEvent list" where
  "cleanup decode isUrl during code reason b =
     (let (b1, out) =
            (case personaplexClient b of
               None \<Rightarrow> (b, [])
             | Some c \<Rightarrow>
                 botClientInputs decode isUrl
                   (if ws c = Some OPEN
                    then CallClose # map WsMessage during @ [WsClose code reason]
                    else [CallClose]) b)
      in (b1\<lparr>personaplexClient := None, opusCodec := False, inputBuffer := None\<rparr>, out))"

definition endSession ::
    "(byte list \<Rightarrow> sample list option) \<Rightarrow> (string \<Rightarrow> bool) \<Rightarrow> byte list list \<Rightarrow> int \<Rightarrow> string option
      \<Rightarrow> VoiceBot \<Rightarrow> VoiceBot \<times> VoiceBotEvent list" where
  "endSession decode isUrl during code reason b =
     (if \<not> isSessionActive b then (b, [])
      else (let (b1, out) = cleanup decode isUrl during code reason (b\<lparr>isSessionActive := False\<rparr>)
            in (b1, out @ [BotEnded])))"

text \<open>
  An example of a bot in an active session, as \<open>startSession\<close> leaves it once the
  client is ready (with a small input buffer).
\<close>

definition activeBot :: VoiceBot where
  "activeBot =
     (newVoiceBot (opt_config (exampleOptions 30)))
       \<lparr>personaplexClient := Some ((readyClient 30)\<lparr>reconnectDelay := 2000\<rparr>),
        inputBuffer := Some (newAudioBuffer 4 2),
        isSessionActive := True\<rparr>"

section \<open>Properties of the mu-law codec\<close>

lemma table_closed_form: "MULAW_DECODE_TABLE = map mulawLinear [0..<256]"
  by code_simp

lemma table_nth: "i < 256 \<Longrightarrow> MULAW_DECODE_TABLE ! i = mulawLinear i"
  by (simp add: table_closed_form del: upt.simps)

lemma and_pow2_int:
  fixes b :: int
  assumes "0 \<le> b" "b < 2 ^ Suc n"
  shows "(b AND 2 ^ n = 0) = (b < 2 ^ n)"
proof -
  have "(b AND 2 ^ n = 0) = (\<not> bit b n)"
    by (simp add: and_exp_eq_0_iff_not_bit)
  also have "\<dots> = (\<not> odd (b div 2 ^ n))"
    by (simp add: bit_iff_odd)
  also have "\<dots> = (b < 2 ^ n)"
  proof (cases "b < 2 ^ n")
    case True
    with assms have "b div 2 ^ n = 0" by simp
    with True show ?thesis by simp
  next
    case False
    with assms have "b = 2 ^ n * 1 + (b - 2 ^ n)" "0 \<le> b - 2 ^ n" "b - 2 ^ n < 2 ^ n"
      by simp_all
    then have "b div 2 ^ n = 1"
      by (rule int_div_pos_eq)
    with False show ?thesis by simp
  qed
  finally show ?thesis .
qed

text \<open>The search returns the segment of the biased magnitude.\<close>

lemma findSegment_bounds:
  assumes "2 ^ 7 \<le> b" "b < 2 ^ (k + 8)"
  shows "2 ^ (findSegment b k (2 ^ (k + 7)) + 7) \<le> b
         \<and> b < 2 ^ (findSegment b k (2 ^ (k + 7)) + 8)
         \<and> findSegment b k (2 ^ (k + 7)) \<le> k"
  using assms
proof (induction k)
  case 0
  then show ?case by simp
next
  case (Suc k)
  from Suc.prems have nn: "0 \<le> b" by simp
  from Suc.prems have "b < 2 ^ Suc (k + 8)" by simp
  from and_pow2_int [OF nn this]
  have t: "(b AND 2 ^ (k + 8) = 0) = (b < 2 ^ (k + 8))" .
  have d: "drop_bit 1 ((2::int) ^ (k + 8)) = 2 ^ (k + 7)"
    by (simp add: drop_bit_eq_div power_add)
  have u: "findSegment b (Suc k) (2 ^ (Suc k + 7))
           = (if b < 2 ^ (k + 8) then findSegment b k (2 ^ (k + 7)) else Suc k)"
  proof -
    have "Suc k + 7 = k + 8" by simp
    then have "findSegment b (Suc k) (2 ^ (Suc k + 7)) = findSegment b (Suc k) (2 ^ (k + 8))"
      by (simp only:)
    also have "\<dots> = (if b AND 2 ^ (k + 8) = 0 then findSegment b k (drop_bit 1 (2 ^ (k + 8)))
                      else Suc k)"
      by (rule findSegment.simps)
    finally show ?thesis by (simp only: t d)
  qed
  have e1: "(2::int) ^ (Suc k + 7) = 2 ^ (k + 8)"
    by simp
  show ?case
  proof (cases "b < 2 ^ (k + 8)")
    case True
    then have r: "findSegment b (Suc k) (2 ^ (Suc k + 7)) = findSegment b k (2 ^ (k + 7))"
      by (simp only: u if_True)
    from Suc.IH [OF Suc.prems(1) True] show ?thesis
      unfolding r by simp
  next
    case False
    then have r: "findSegment b (Suc k) (2 ^ (Suc k + 7)) = Suc k"
      by (simp only: u if_False)
    from False e1 have "2 ^ (Suc k + 7) \<le> b"
      by linarith
    with Suc.prems(2) show ?thesis
      unfolding r by simp
  qed
qed

lemma code_byte:
  "\<forall>e\<in>{0..<8}. \<forall>m\<in>{0..<16}. \<forall>s\<in>{0, 128::int}.
     NOT (s OR push_bit 4 (int e) OR int m) AND 0xFF = 255 - (s + 16 * int e + int m)"
  by code_simp

lemma linear_index:
  "\<forall>e\<in>{0..<8}. \<forall>m\<in>{0..<16}.
     mulawLinear (255 - (16 * e + m)) = (8 * int m + 132) * 2 ^ e - 132
     \<and> mulawLinear (127 - (16 * e + m)) = - ((8 * int m + 132) * 2 ^ e - 132)"
  by code_simp

lemma round_16bit:
  fixes x :: int
  assumes "- 32768 \<le> x" "x \<le> 32767"
  defines "p \<equiv> js_round (max (- 1) (min 1 (of_int x / 32768)) * 32767)"
  shows "(0 \<le> x \<longrightarrow> 0 \<le> p \<and> x - 1 \<le> p \<and> p \<le> x)
       \<and> (x < 0 \<longrightarrow> p < 0 \<and> x \<le> p \<and> p \<le> x + 1)"
proof -
  let ?s = "of_int x / 32768 :: rat"
  from assms(1,2) have b: "(- 32768 :: rat) \<le> of_int x" "(of_int x :: rat) \<le> 32767"
    by (simp_all add: of_int_le_iff [symmetric] del: of_int_le_iff)
  then have c: "max (- 1) (min 1 ?s) = ?s"
    by (simp add: max_def min_def)
  have p: "p = \<lfloor>?s * 32767 + 1 / 2\<rfloor>"
    by (simp add: p_def c js_round_def)
  have lo: "of_int p \<le> ?s * 32767 + 1 / 2" and hi: "?s * 32767 + 1 / 2 < of_int p + 1"
    unfolding p by linarith+
  show ?thesis
  proof (intro conjI impI)
    assume "0 \<le> x"
    then have x0: "(0::rat) \<le> of_int x" by simp
    from x0 b hi have "(of_int x :: rat) - 2 < of_int p" by simp
    then have "x - 2 < p" by (simp only: of_int_less_iff [symmetric] of_int_diff of_int_numeral)
    then show "x - 1 \<le> p" by simp
    from x0 b hi have "(- 1 :: rat) < of_int p" by simp
    then have "- 1 < p" by (simp only: of_int_less_iff [symmetric] of_int_minus of_int_1)
    then show "0 \<le> p" by simp
    from x0 b lo have "(of_int p :: rat) < of_int x + 1" by simp
    then have "p < x + 1" by (simp only: of_int_less_iff [symmetric] of_int_add of_int_1)
    then show "p \<le> x" by simp
  next
    assume "x < 0"
    then have "x \<le> - 1" by simp
    then have x0: "(of_int x :: rat) \<le> - 1" by (simp only: of_int_le_iff [symmetric] of_int_minus of_int_1)
    from x0 b hi have "(of_int x :: rat) - 1 < of_int p" by simp
    then have "x - 1 < p" by (simp only: of_int_less_iff [symmetric] of_int_diff of_int_1)
    then show "x \<le> p" by simp
    from x0 b lo have "(of_int p :: rat) < 0" by simp
    then show "p < 0" by simp
    from x0 b lo have "(of_int p :: rat) < of_int x + 2" by simp
    then have "p < x + 2" by (simp only: of_int_less_iff [symmetric] of_int_add of_int_numeral)
    then show "p \<le> x + 1" by simp
  qed
qed

lemma and_15_int: "(x::int) AND 0x0F = x mod 16"
proof -
  have "(0x0F::int) = mask 4" by (simp add: mask_eq_exp_minus_1)
  then have "x AND 0x0F = take_bit 4 x" by (simp only: take_bit_eq_mask)
  then show ?thesis by (simp add: take_bit_eq_mod)
qed

lemma segment_of_biased:
  fixes b :: int
  assumes "132 \<le> b" "b \<le> 32635"
  shows "2 ^ (findSegment b 7 0x4000 + 7) \<le> b \<and> b < 2 ^ (findSegment b 7 0x4000 + 8)
         \<and> findSegment b 7 0x4000 \<le> 7"
proof -
  have "(0x4000::int) = 2 ^ (7 + 7)" by simp
  moreover from assms have "2 ^ 7 \<le> b" "b < 2 ^ (7 + 8)" by simp_all
  ultimately show ?thesis
    using findSegment_bounds [of b 7] by (simp only:)
qed

lemma mantissa_error_scaled:
  fixes b h :: int
  assumes "0 < h" "128 * h \<le> b" "b < 256 * h"
  defines "m \<equiv> (b div (8 * h)) mod 16"
  shows "0 \<le> m \<and> m \<le> 15 \<and> \<bar>(8 * m + 132) * h - b\<bar> \<le> 4 * h"
proof -
  define t r where "t = b div (8 * h)" and "r = b mod (8 * h)"
  have "8 * h * t + r = b"
    unfolding t_def r_def by (rule mult_div_mod_eq)
  then have b: "b = 8 * (h * t) + r"
    by (simp add: mult.assoc)
  from assms(1) have r: "0 \<le> r" "r < 8 * h"
    by (simp_all add: r_def)
  from b r assms have "h * t < h * 32" "h * 15 < h * t"
    by linarith+
  then have t: "t < 32" "15 < t"
    by (simp_all only: mult_less_cancel_left_pos [OF assms(1)])
  then have "t mod 16 = t - 16"
    by presburger
  then have m: "m = t - 16"
    by (simp add: m_def t_def)
  have "(8 * m + 132) * h = 8 * (h * t) + 4 * h"
    by (simp add: m algebra_simps)
  with b r t m show ?thesis
    by simp
qed

lemma mantissa_error:
  fixes b :: int
  assumes "132 \<le> b" "b \<le> 32635"
  defines "e \<equiv> findSegment b 7 0x4000"
  defines "m \<equiv> drop_bit (e + 3) b AND 0x0F"
  shows "0 \<le> m \<and> m \<le> 15 \<and> \<bar>(8 * m + 132) * 2 ^ e - b\<bar> \<le> 2 ^ (e + 2)"
proof -
  from segment_of_biased [OF assms(1,2)]
  have "128 * 2 ^ e \<le> b" "b < 256 * 2 ^ e"
    by (simp_all add: e_def power_add)
  moreover have "m = (b div (8 * 2 ^ e)) mod 16"
    by (simp add: m_def and_15_int drop_bit_eq_div power_add mult.commute)
  moreover have "(2::int) ^ (e + 2) = 4 * 2 ^ e"
    by (simp add: power_add)
  ultimately show ?thesis
    using mantissa_error_scaled [of "2 ^ e" b] by simp
qed

lemma findSegment_mono:
  fixes b b' :: int
  assumes "132 \<le> b" "b \<le> b'" "b' \<le> 32635"
  shows "findSegment b 7 0x4000 \<le> findSegment b' 7 0x4000"
proof -
  from assms have "132 \<le> b'" "b \<le> 32635" by simp_all
  from segment_of_biased [OF assms(1) this(2)] segment_of_biased [OF this(1) assms(3)] assms(2)
  have "(2::int) ^ (findSegment b 7 0x4000 + 7) < 2 ^ (findSegment b' 7 0x4000 + 8)"
    by linarith
  then have "findSegment b 7 0x4000 + 7 < findSegment b' 7 0x4000 + 8"
    by (simp only: power_strict_increasing_iff one_less_numeral_iff semiring_norm)
  then show ?thesis by simp
qed

lemma decode_encodeMulawPcm:
  fixes p :: int
  defines "b \<equiv> min (\<bar>p\<bar> + 132) 32635"
  defines "e \<equiv> findSegment b 7 0x4000"
  defines "m \<equiv> drop_bit (e + 3) b AND 0x0F"
  shows "0 \<le> encodeMulawPcm p \<and> encodeMulawPcm p \<le> 255
       \<and> MULAW_DECODE_TABLE ! nat (encodeMulawPcm p)
           = (if p < 0 then - ((8 * m + 132) * 2 ^ e - 132) else (8 * m + 132) * 2 ^ e - 132)"
proof -
  have b: "132 \<le> b" "b \<le> 32635"
    by (simp_all add: b_def)
  from segment_of_biased [OF b] have e: "e \<in> {0..<8}"
    by (simp add: e_def)
  from mantissa_error [OF b] have m: "0 \<le> m" "m \<le> 15"
    by (simp_all add: m_def e_def)
  then have mn: "nat m \<in> {0..<16}" "int (nat m) = m"
    by simp_all
  define s :: int where "s = (if p < 0 then 0x80 else 0x00)"
  have sv: "s \<in> {0, 128}"
    by (simp add: s_def)
  have enc: "encodeMulawPcm p = NOT (s OR push_bit 4 (int e) OR m) AND 0xFF"
    by (simp add: encodeMulawPcm_def Let_def MULAW_BIAS_def MULAW_MAX_def s_def m_def e_def
          b_def abs_if)
  from code_byte e mn(1) sv have "NOT (s OR push_bit 4 (int e) OR int (nat m)) AND 0xFF
           = 255 - (s + 16 * int e + int (nat m))"
    by blast
  with enc mn(2) have v: "encodeMulawPcm p = 255 - (s + 16 * int e + m)"
    by simp
  from linear_index e mn(1)
  have li: "mulawLinear (255 - (16 * e + nat m)) = (8 * int (nat m) + 132) * 2 ^ e - 132"
       "mulawLinear (127 - (16 * e + nat m)) = - ((8 * int (nat m) + 132) * 2 ^ e - 132)"
    by blast+
  from e m have r: "0 \<le> 16 * int e + m" "16 * int e + m \<le> 127"
    by simp_all
  show ?thesis
  proof (cases "p < 0")
    case True
    then have "encodeMulawPcm p = 127 - (16 * int e + m)"
      by (simp add: v s_def)
    moreover from this r m have "nat (encodeMulawPcm p) = 127 - (16 * e + nat m)"
      by linarith
    moreover from r m have "127 - (16 * e + nat m) < 256"
      by linarith
    ultimately show ?thesis
      using True r li(2) mn(2) by (simp add: table_nth)
  next
    case False
    then have "encodeMulawPcm p = 255 - (16 * int e + m)"
      by (simp add: v s_def)
    moreover from this r m have "nat (encodeMulawPcm p) = 255 - (16 * e + nat m)"
      by linarith
    moreover from r m have "255 - (16 * e + nat m) < 256"
      by linarith
    ultimately show ?thesis
      using False r li(1) mn(2) by (simp add: table_nth)
  qed
qed

lemma decoded_close_to_magnitude:
  fixes a :: int
  assumes "0 \<le> a"
  defines "b \<equiv> min (a + 132) 32635"
  defines "e \<equiv> findSegment b 7 0x4000"
  defines "m \<equiv> drop_bit (e + 3) b AND 0x0F"
  defines "D \<equiv> (8 * m + 132) * 2 ^ e - 132"
  shows "(a \<le> 32503 \<longrightarrow> \<bar>D - a\<bar> \<le> 2 ^ (e + 2)) \<and> (32503 < a \<longrightarrow> D = 32124)"
proof (intro conjI impI)
  assume "a \<le> 32503"
  with assms(1) have b: "b = a + 132" "132 \<le> b" "b \<le> 32635"
    by (simp_all add: b_def)
  from mantissa_error [OF b(2,3)] have "\<bar>(8 * m + 132) * 2 ^ e - b\<bar> \<le> 2 ^ (e + 2)"
    by (simp add: m_def e_def)
  with b(1) show "\<bar>D - a\<bar> \<le> 2 ^ (e + 2)"
    by (simp add: D_def)
next
  assume "32503 < a"
  then have b: "b = 32635"
    by (simp add: b_def)
  have e: "e = 7"
    unfolding e_def b by code_simp
  have "m = 15"
    unfolding m_def e b by code_simp
  with e show "D = 32124"
    by (simp add: D_def)
qed

lemma step_covers:
  fixes x p :: int
  assumes "\<bar>x\<bar> \<le> 32768" "\<bar>p\<bar> \<le> \<bar>x\<bar>" "\<bar>x\<bar> \<le> \<bar>p\<bar> + 1"
  defines "b \<equiv> min (\<bar>p\<bar> + 132) 32635"
  defines "e \<equiv> findSegment b 7 0x4000"
  defines "m \<equiv> drop_bit (e + 3) b AND 0x0F"
  defines "D \<equiv> (8 * m + 132) * 2 ^ e - 132"
  shows "\<bar>D - \<bar>x\<bar>\<bar> \<le> segmentStep x"
proof (cases "\<bar>p\<bar> \<le> 32503")
  case True
  have a: "0 \<le> \<bar>p\<bar>" by simp
  from decoded_close_to_magnitude [OF a] True
  have d: "\<bar>D - \<bar>p\<bar>\<bar> \<le> 2 ^ (e + 2)"
    by (simp add: D_def m_def e_def b_def)
  have "132 \<le> b" "b \<le> min (\<bar>x\<bar> + 132) 32635" "min (\<bar>x\<bar> + 132) 32635 \<le> 32635"
    using assms(2) by (simp_all add: b_def)
  from findSegment_mono [OF this]
  have "e \<le> findSegment (min (\<bar>x\<bar> + 132) 32635) 7 0x4000"
    by (simp add: e_def)
  then have "(2::int) ^ (e + 3) \<le> segmentStep x"
    by (simp add: segmentStep_def MULAW_BIAS_def MULAW_MAX_def)
  moreover have "(2::int) ^ (e + 3) = 2 * 2 ^ (e + 2)"
    by (simp add: power_add)
  moreover have "(1::int) \<le> 2 ^ (e + 2)"
    by (rule one_le_power) simp
  ultimately show ?thesis
    using d assms(2,3) by linarith
next
  case False
  have a: "0 \<le> \<bar>p\<bar>" by simp
  from decoded_close_to_magnitude [OF a] False
  have d: "D = 32124"
    by (simp add: D_def m_def e_def b_def)
  from False assms(2) have "min (\<bar>x\<bar> + 132) 32635 = 32635"
    by simp
  then have "segmentStep x = 2 ^ (findSegment 32635 7 0x4000 + 3)"
    by (simp add: segmentStep_def MULAW_BIAS_def MULAW_MAX_def)
  also have "\<dots> = 1024"
    by code_simp
  finally show ?thesis
    using d False assms(1,2) by linarith
qed

text \<open>
  C1. Byte \<open>0xFF\<close> decodes to linear 0 and byte \<open>0x00\<close> to linear \<open>-32124\<close> (as
  samples, divided by 32768). For every 16-bit value \<open>x\<close>, given to the encoder as the
  sample \<open>x / 32768\<close>, decoding the encoded byte gives a linear value \<open>d\<close> that is
  within one quantization step of \<open>x\<close>, the step of the segment \<open>x\<close> falls in.
\<close>

theorem mulaw_round_trip:
  "mulawToPcm [0xFF] = [0] \<and> mulawToPcm [0x00] = [- 32124 / 32768]
   \<and> (\<forall>x. - 32768 \<le> x \<and> x \<le> 32767 \<longrightarrow>
        (\<exists>d. mulawToPcm (pcmToMulaw (int16ToFloat32 [x])) = [of_int d / 32768]
           \<and> \<bar>d - x\<bar> \<le> segmentStep x))"
proof (intro conjI allI impI)
  show "mulawToPcm [0xFF] = [0]"
    by (simp add: mulawToPcm_def table_nth mulawLinear_def)
  show "mulawToPcm [0x00] = [- 32124 / 32768]"
    by (simp add: mulawToPcm_def table_nth mulawLinear_def)
next
  fix x :: int
  assume x: "- 32768 \<le> x \<and> x \<le> 32767"
  define p where "p = js_round (max (- 1) (min 1 (of_int x / 32768)) * 32767)"
  from x round_16bit [of x]
  have r: "0 \<le> x \<longrightarrow> 0 \<le> p \<and> x - 1 \<le> p \<and> p \<le> x"
          "x < 0 \<longrightarrow> p < 0 \<and> x \<le> p \<and> p \<le> x + 1"
    by (simp_all add: p_def)
  define b where "b = min (\<bar>p\<bar> + 132) 32635"
  define e where "e = findSegment b 7 0x4000"
  define m where "m = drop_bit (e + 3) b AND 0x0F"
  define D where "D = (8 * m + 132) * 2 ^ e - 132"
  define d where "d = (if p < 0 then - D else D)"
  from decode_encodeMulawPcm [of p]
  have enc: "0 \<le> encodeMulawPcm p" "encodeMulawPcm p \<le> 255"
       "MULAW_DECODE_TABLE ! nat (encodeMulawPcm p) = d"
    by (simp_all add: d_def D_def m_def e_def b_def)
  from enc(1,2) have "unat (word_of_int (encodeMulawPcm p) :: byte) = nat (encodeMulawPcm p)"
    by (simp add: unat_eq_nat_uint uint_word_of_int take_bit_eq_mod)
  with enc(3) have out: "mulawToPcm (pcmToMulaw (int16ToFloat32 [x])) = [of_int d / 32768]"
    by (simp add: mulawToPcm_def pcmToMulaw_def int16ToFloat32_def encodeMulawSample_def p_def)
  from x r have px: "\<bar>x\<bar> \<le> 32768" "\<bar>p\<bar> \<le> \<bar>x\<bar>" "\<bar>x\<bar> \<le> \<bar>p\<bar> + 1"
    by linarith+
  from step_covers [OF px] have "\<bar>D - \<bar>x\<bar>\<bar> \<le> segmentStep x"
    by (simp add: D_def m_def e_def b_def)
  moreover from r have "\<bar>d - x\<bar> = \<bar>D - \<bar>x\<bar>\<bar>"
    by (cases "x < 0") (auto simp: d_def)
  ultimately have "\<bar>d - x\<bar> \<le> segmentStep x"
    by simp
  with out show "\<exists>d. mulawToPcm (pcmToMulaw (int16ToFloat32 [x])) = [of_int d / 32768]
           \<and> \<bar>d - x\<bar> \<le> segmentStep x"
    by blast
qed

theorem mulaw_round_trip_witness:
  "(- 32768 \<le> (1000::int) \<and> (1000::int) \<le> 32767)
   \<and> mulawToPcm (pcmToMulaw (int16ToFloat32 [1000])) = [988 / 32768]
   \<and> \<bar>988 - 1000\<bar> \<le> segmentStep 1000
   \<and> segmentStep 1000 = 64"
proof -
  have h: "- 32768 \<le> (1000::int) \<and> (1000::int) \<le> 32767"
    by simp
  have ev: "mulawToPcm (pcmToMulaw (int16ToFloat32 [1000])) = [988 / 32768]"
    by code_simp
  have st: "segmentStep 1000 = 64"
    by code_simp
  from mulaw_round_trip h obtain d :: int where
    d: "mulawToPcm (pcmToMulaw (int16ToFloat32 [1000])) = [of_int d / 32768]"
       "\<bar>d - 1000\<bar> \<le> segmentStep 1000"
    by blast
  from d(1) ev have "d = 988"
    by simp
  with d(2) h ev st show ?thesis
    by simp
qed

section \<open>Properties of the resamplers\<close>

lemma length_resample:
  "length (resample audio from_rate to_rate)
     = (if from_rate = to_rate then length audio
        else nat \<lceil>fl (of_nat (length audio) / fl (from_rate / to_rate))\<rceil>)"
  by (simp add: resample_def Let_def)

lemma quotient_1_49: "fl (1 / fl (1 / 49)) = 6896136929411073 / 140737488355328"
  by code_simp

lemma process_first_chunk:
  "map_option (\<lambda>p. (length (fst p), fractionalPosition (snd p)))
     (process [0] (createResampler 8000 48000))
   = Some (6, 9007199254740991 / 9007199254740992)"
  by code_simp

lemma process_second_chunk:
  "map_option (\<lambda>p. length (fst p))
     (process [0] ((createResampler 8000 48000)
                     \<lparr>fractionalPosition := 9007199254740991 / 9007199254740992\<rparr>))
   = Some 1"
  by code_simp

text \<open>
  C6. The lengths are claimed for all positive rates. In the doubles of the source the
  quotient \<open>1 / 49\<close> is rounded down, \<open>1 / (1 / 49)\<close> comes out above 49, and
  \<open>resample\<close> of one sample from rate 1 to rate 49 has 50 samples, not
  \<open>ceil(1 * 49 / 1) = 49\<close>. In the streaming resampler from 8000 to 48000, six additions
  of the rounded ratio \<open>1 / 6\<close> give \<open>1 - 2^-53\<close>, not 1: the first one-sample chunk
  yields 6 samples and leaves that position behind, and the second one-sample chunk
  yields 1 sample, five less than \<open>ceil(1 * 48000 / 8000) = 6\<close>.
\<close>

theorem resample_lengths_off:
  "length (resample [0] 1 49) = 50
   \<and> \<lceil>(1::rat) * 49 / 1\<rceil> = 49
   \<and> map_option (\<lambda>p. (length (fst p), fractionalPosition (snd p)))
        (process [0] (createResampler 8000 48000))
      = Some (6, 9007199254740991 / 9007199254740992)
   \<and> map_option (\<lambda>p. length (fst p))
        (process [0] ((createResampler 8000 48000)
                        \<lparr>fractionalPosition := 9007199254740991 / 9007199254740992\<rparr>))
      = Some 1
   \<and> \<lceil>(1::rat) * 48000 / 8000\<rceil> = 6"
proof (intro conjI)
  have "\<lceil>6896136929411073 / 140737488355328 :: rat\<rceil> = 50"
    by (rule ceiling_unique) simp_all
  then show "length (resample [0] 1 49) = 50"
    by (simp add: length_resample quotient_1_49)
  show "\<lceil>(1::rat) * 49 / 1\<rceil> = 49" and "\<lceil>(1::rat) * 48000 / 8000\<rceil> = 6"
    by simp_all
  show "map_option (\<lambda>p. (length (fst p), fractionalPosition (snd p)))
        (process [0] (createResampler 8000 48000))
      = Some (6, 9007199254740991 / 9007199254740992)"
    by (rule process_first_chunk)
  show "map_option (\<lambda>p. length (fst p))
        (process [0] ((createResampler 8000 48000)
                        \<lparr>fractionalPosition := 9007199254740991 / 9007199254740992\<rparr>))
      = Some 1"
    by (rule process_second_chunk)
qed

section \<open>Properties of \<open>AudioBuffer\<close>\<close>



lemma length_copyWithin0: "length (copyWithin0 s arr) = length arr"
  by (auto simp: copyWithin0_def Let_def)

lemma take_copyWithin0:
  assumes "0 \<le> s" "s \<le> w" "w \<le> int (length arr)"
  shows "take (nat (w - s)) (copyWithin0 s arr) = drop (nat s) (take (nat w) arr)"
proof -
  from assms have "copyWithin0 s arr = drop (nat s) arr @ drop (length arr - nat s) arr"
    by (simp add: copyWithin0_def Let_def min_def nat_diff_distrib)
  moreover from assms have "nat (w - s) \<le> length (drop (nat s) arr)"
    by simp
  ultimately have "take (nat (w - s)) (copyWithin0 s arr) = take (nat (w - s)) (drop (nat s) arr)"
    by simp
  also from assms have "\<dots> = drop (nat s) (take (nat w) arr)"
    by (simp add: drop_take nat_diff_distrib)
  finally show ?thesis .
qed

lemma push_fits:
  assumes "wellformed b" "writePosition b + int (length samples) \<le> int (length (buffer b))"
  shows "\<exists>b'. push samples b = (Inr (), b') \<and> wellformed b'
            \<and> contents b' = contents b @ samples
            \<and> length (buffer b') = length (buffer b) \<and> frameSize b' = frameSize b"
proof -
  from assms have w: "0 \<le> writePosition b" by (simp add: wellformed_def)
  define arr where "arr = take (nat (writePosition b)) (buffer b) @ samples
                          @ drop (nat (writePosition b) + length samples) (buffer b)"
  from assms w have p: "push samples b =
      (Inr (), b\<lparr>buffer := arr, writePosition := writePosition b + int (length samples)\<rparr>)"
    by (simp add: push_def typed_set_def Let_def arr_def)
  from assms w have len: "length arr = length (buffer b)"
    by (simp add: arr_def)
  from assms w have "take (nat (writePosition b + int (length samples))) arr
      = take (nat (writePosition b)) (buffer b) @ samples"
    by (simp add: arr_def nat_add_distrib)
  with p len assms w show ?thesis
    by (simp add: wellformed_def contents_def)
qed

lemma push_overflow:
  assumes "wellformed b" "int (length samples) \<le> int (length (buffer b))"
      and "writePosition b + int (length samples) > int (length (buffer b))"
  shows "\<exists>b'. push samples b = (Inr (), b') \<and> wellformed b'
            \<and> contents b' = drop (nat (writePosition b + int (length samples)
                                        - int (length (buffer b)))) (contents b) @ samples
            \<and> writePosition b' = int (length (buffer b))
            \<and> length (buffer b') = length (buffer b) \<and> frameSize b' = frameSize b"
proof -
  define ov where "ov = writePosition b + int (length samples) - int (length (buffer b))"
  define b1 where "b1 = b\<lparr>buffer := copyWithin0 ov (buffer b),
                          writePosition := writePosition b - ov\<rparr>"
  from assms have ov: "0 < ov" "ov \<le> writePosition b"
    and w: "writePosition b \<le> int (length (buffer b))"
    by (simp_all add: ov_def wellformed_def)
  have wf1: "wellformed b1"
    using ov w by (simp add: b1_def wellformed_def length_copyWithin0)
  have fit: "writePosition b1 + int (length samples) \<le> int (length (buffer b1))"
    by (simp add: b1_def ov_def length_copyWithin0)
  have c1: "contents b1 = drop (nat ov) (contents b)"
    using take_copyWithin0 [of ov "writePosition b" "buffer b"] ov w
    by (simp add: contents_def b1_def)
  have step: "push samples b = push samples b1"
    using assms fit
    by (auto simp: push_def Let_def b1_def ov_def length_copyWithin0 split: sum.splits)
  from push_fits [OF wf1 fit] obtain b' where
    b': "push samples b1 = (Inr (), b')" "wellformed b'"
        "contents b' = contents b1 @ samples"
        "length (buffer b') = length (buffer b1)" "frameSize b' = frameSize b1"
    by blast
  from b'(1) wf1 fit have "writePosition b' = writePosition b1 + int (length samples)"
    by (auto simp: push_def typed_set_def Let_def wellformed_def split: if_splits)
  then have "writePosition b' = int (length (buffer b))"
    by (simp add: b1_def ov_def)
  with b' c1 step show ?thesis
    by (simp add: b1_def ov_def length_copyWithin0)
qed



lemma length_contents: "wellformed b \<Longrightarrow> int (length (contents b)) = writePosition b"
  by (auto simp: wellformed_def contents_def min_def)

lemma upt_0_Suc_shift: "[0..<Suc n] = 0 # map Suc [0..<n]"
  by (simp add: upt_conv_Cons map_Suc_upt del: upt_Suc)




text \<open>What \<open>push\<close> guarantees for a chunk no longer than the capacity.\<close>

lemma push_within_capacity:
  assumes "wellformed b" "length samples \<le> length (buffer b)"
  shows "\<exists>b'. push samples b = (Inr (), b') \<and> wellformed b'
            \<and> sampleCount b' \<le> int (length (buffer b'))
            \<and> length (buffer b') = length (buffer b) \<and> frameSize b' = frameSize b
            \<and> contents b' = drop (length (contents b) + length samples - length (buffer b))
                                  (contents b) @ samples"
proof (cases "writePosition b + int (length samples) \<le> int (length (buffer b))")
  case True
  from length_contents [OF assms(1)] True
  have "length (contents b) + length samples - length (buffer b) = 0"
    by linarith
  with push_fits [OF assms(1) True] show ?thesis
    by (auto simp: wellformed_def sampleCount_def)
next
  case False
  then have over: "writePosition b + int (length samples) > int (length (buffer b))"
    by simp
  from assms(2) have le: "int (length samples) \<le> int (length (buffer b))"
    by simp
  from length_contents [OF assms(1)]
  have "nat (writePosition b + int (length samples) - int (length (buffer b)))
          = length (contents b) + length samples - length (buffer b)"
    by linarith
  with push_overflow [OF assms(1) le over] show ?thesis
    by (auto simp: wellformed_def sampleCount_def)
qed

text \<open>A chunk longer than the capacity: \<open>set\<close> throws, the write position is left negative.\<close>

lemma push_beyond_capacity:
  assumes "wellformed b" "length samples > length (buffer b)"
  shows "push samples b =
           (Inl RangeError,
            b\<lparr>buffer := copyWithin0 (writePosition b + int (length samples) - int (length (buffer b)))
                          (buffer b),
              writePosition := int (length (buffer b)) - int (length samples)\<rparr>)"
  using assms
  by (simp add: push_def Let_def typed_set_def wellformed_def length_copyWithin0)

text \<open>
  C2. The bound on the occupied size is claimed for every push, also for a single push
  that is longer than the whole capacity. At such a push the source does not keep the
  newest samples: with capacity 4, pushing five samples into a new buffer throws the
  RangeError of \<open>Float32Array.set\<close>, stores none of the five samples and leaves
  \<open>writePosition\<close> at \<open>-1\<close>; the next push, of one sample, throws again.
\<close>

theorem push_longer_than_capacity_throws:
  "push [1, 2, 3, 4, 5] (newAudioBuffer 2 2)
     = (Inl RangeError, \<lparr>buffer = [0, 0, 0, 0], writePosition = - 1, frameSize = 2\<rparr>)
   \<and> push [6] \<lparr>buffer = [0, 0, 0, 0], writePosition = - 1, frameSize = 2\<rparr>
     = (Inl RangeError, \<lparr>buffer = [0, 0, 0, 0], writePosition = - 1, frameSize = 2\<rparr>)"
  by (simp add: push_def newAudioBuffer_def typed_set_def copyWithin0_def Let_def
        numeral_eq_Suc)

section \<open>Properties of the Twilio media handler\<close>

text \<open>
  C10. A message whose event is \<open>start\<close> and that carries no \<open>start\<close> object changes
  nothing and emits nothing: \<open>streamSid\<close>, \<open>callSid\<close> and with them \<open>isActive\<close> are as
  before.
\<close>

theorem start_without_start_object_ignored:
  "handleMessage fromBase64 now \<lparr>event = Start, start = None, media = md, dtmf = dt\<rparr> h = (h, [])
   \<and> isActive (fst (handleMessage fromBase64 now
                       \<lparr>event = Start, start = None, media = md, dtmf = dt\<rparr> h)) = isActive h"
  by (simp add: handleMessage_def)

lemma parseInt10_zero: "parseInt10 ''0'' = Some 0"
  by (simp add: parseInt10_def isWhiteSpace_def isDigit_def digitsValue_def fl_def roundTo_def)

text \<open>The timestamp that is emitted when the field parses to a number other than zero.\<close>

lemma media_timestamp_nonzero:
  assumes "parseInt10 ts = Some n" "n \<noteq> 0" "p \<noteq> []"
  shows "handleMessage fromBase64 now
           \<lparr>event = Media, start = st, media = Some \<lparr>timestamp = ts, payload = p\<rparr>, dtmf = dt\<rparr> h
         = (h, [EmitAudio (mulawToPcm (fromBase64 p)) n])"
  using assms by (simp add: handleMessage_def handleMediaPayload_def)

lemma media_timestamp_unparsed:
  assumes "parseInt10 ts = None" "p \<noteq> []"
  shows "handleMessage fromBase64 now
           \<lparr>event = Media, start = st, media = Some \<lparr>timestamp = ts, payload = p\<rparr>, dtmf = dt\<rparr> h
         = (h, [EmitAudio (mulawToPcm (fromBase64 p)) (of_int now)])"
  using assms by (simp add: handleMessage_def handleMediaPayload_def)

text \<open>
  C9. The timestamp field \<open>"0"\<close> parses, to the integer 0, and yet the audio event
  carries the wall-clock time \<open>now\<close>, not 0: the fallback of the source tests the parsed
  number for truthiness, and zero is falsy.
\<close>

theorem media_timestamp_zero_replaced:
  "parseInt10 ''0'' = Some 0
   \<and> handleMessage fromBase64 now
        \<lparr>event = Media, start = None,
         media = Some \<lparr>timestamp = ''0'', payload = ''/w==''\<rparr>, dtmf = None\<rparr> h
      = (h, [EmitAudio (mulawToPcm (fromBase64 ''/w=='')) (of_int now)])"
  by (simp add: handleMessage_def handleMediaPayload_def parseInt10_zero)

section \<open>Properties of the PersonaPlex client\<close>





lemma retry_round:
  assumes "isUrl (url (config c))" "\<not> isReady c" "shouldReconnect c" "\<not> closeListener c"
      and "ws c = Some CONNECTING" "reconnectAttempts c < maxReconnectAttempts c"
  shows "run isUrl [WsClose code reason, TimerFires RetryConnectInternal] c
         = (c\<lparr>reconnectAttempts := Suc (reconnectAttempts c)\<rparr>,
            [SetTimeout (fl (reconnectDelay c * fl ((3 / 2) ^ Suc (reconnectAttempts c)))) RetryConnectInternal,
             OpenSocket])"
  using assms
  by (simp add: step_def socketClosed_def onClose_def connectInternal_def Let_def)

lemma closesBeforeOpen_Suc:
  "closesBeforeOpen (Suc k) code reason
     = [WsClose code reason, TimerFires RetryConnectInternal] @ closesBeforeOpen k code reason"
  by (simp add: closesBeforeOpen_def)

lemma run_append:
  "run isUrl (xs @ ys) c =
     (let (c1, e1) = run isUrl xs c; (c2, e2) = run isUrl ys c1 in (c2, e1 @ e2))"
  by (induction xs arbitrary: c) (simp_all add: split_beta)

lemma retry_rounds:
  assumes "isUrl (url (config c))" "\<not> isReady c" "shouldReconnect c" "\<not> closeListener c"
      and "ws c = Some CONNECTING" "reconnectAttempts c + k \<le> maxReconnectAttempts c"
  shows "run isUrl (closesBeforeOpen k code reason) c
         = (c\<lparr>reconnectAttempts := reconnectAttempts c + k\<rparr>,
            concat (map (\<lambda>j. [SetTimeout (fl (reconnectDelay c * fl ((3 / 2) ^ (reconnectAttempts c + Suc j))))
                                 RetryConnectInternal, OpenSocket]) [0..<k]))"
  using assms
proof (induction k arbitrary: c)
  case 0
  then show ?case by (simp add: closesBeforeOpen_def)
next
  case (Suc k)
  let ?c1 = "c\<lparr>reconnectAttempts := Suc (reconnectAttempts c)\<rparr>"
  from Suc.prems have lt: "reconnectAttempts c < maxReconnectAttempts c" by simp
  note r1 = retry_round [where isUrl = isUrl and c = c and code = code and reason = reason, OF Suc.prems(1-5) lt]
  from Suc.prems have p: "isUrl (url (config ?c1))" "\<not> isReady ?c1" "shouldReconnect ?c1"
      "\<not> closeListener ?c1" "ws ?c1 = Some CONNECTING"
      "reconnectAttempts ?c1 + k \<le> maxReconnectAttempts ?c1"
    by simp_all
  note r2 = Suc.IH [where c = ?c1, OF p]
  have "map (\<lambda>j. [SetTimeout (fl (reconnectDelay c * fl ((3 / 2) ^ (reconnectAttempts c + Suc j))))
                                 RetryConnectInternal, OpenSocket]) [0..<Suc k]
        = [SetTimeout (fl (reconnectDelay c * fl ((3 / 2) ^ Suc (reconnectAttempts c)))) RetryConnectInternal,
             OpenSocket]
          # map (\<lambda>j. [SetTimeout (fl (reconnectDelay c * fl ((3 / 2) ^ (Suc (reconnectAttempts c) + Suc j))))
                                 RetryConnectInternal, OpenSocket]) [0..<k]"
    unfolding upt_0_Suc_shift by (simp add: comp_def del: upt_Suc)
  with r1 r2 show ?case
    unfolding closesBeforeOpen_Suc run_append by (simp del: run.simps upt_Suc)
qed

text \<open>
  C3, as the source has it. After \<open>connect()\<close> on a new client, let every socket close
  without having opened, and let every retry timer fire. Each of the first
  \<open>maxReconnectAttempts\<close> closes sets a retry timer and rejects nothing; the close after
  them, the one of the last retry, rejects the promise of \<open>connect()\<close> with a message
  that names \<open>maxReconnectAttempts\<close>, sets no timer and clears \<open>isConnecting\<close>.
\<close>

theorem reconnect_exhaustion:
  assumes "isUrl (url (opt_config options))"
  defines "c0 \<equiv> fst (connect isUrl (newPersonaPlexClient options))"
  shows "\<exists>cM. run isUrl (closesBeforeOpen (maxReconnectAttempts c0) code reason) c0
              = (cM, concat (map (\<lambda>j. [SetTimeout (fl (reconnectDelay c0 * fl ((3 / 2) ^ Suc j)))
                                          RetryConnectInternal, OpenSocket])
                              [0..<maxReconnectAttempts c0]))
           \<and> socketClosed code reason cM
              = (cM\<lparr>ws := Some CLOSED, isConnecting := False\<rparr>,
                 [RejectConnect (''Failed to connect after '' @ showNat (maxReconnectAttempts c0)
                                  @ '' attempts: Connection closed'')])"
proof -
  have c0: "c0 = (newPersonaPlexClient options)
                   \<lparr>isConnecting := True, shouldReconnect := True, reconnectAttempts := 0,
                     ws := Some CONNECTING, closeListener := False\<rparr>"
    using assms(1) by (simp add: c0_def connect_def connectInternal_def newPersonaPlexClient_def)
  have p: "isUrl (url (config c0))" "\<not> isReady c0" "shouldReconnect c0" "\<not> closeListener c0"
      "ws c0 = Some CONNECTING" "reconnectAttempts c0 + maxReconnectAttempts c0 \<le> maxReconnectAttempts c0"
    using assms(1) by (simp_all add: c0 newPersonaPlexClient_def)
  let ?cM = "c0\<lparr>reconnectAttempts := reconnectAttempts c0 + maxReconnectAttempts c0\<rparr>"
  from retry_rounds [where isUrl = isUrl and c = c0 and code = code and reason = reason, OF p]
  have r: "run isUrl (closesBeforeOpen (maxReconnectAttempts c0) code reason) c0
              = (?cM, concat (map (\<lambda>j. [SetTimeout (fl (reconnectDelay c0 * fl ((3 / 2) ^ Suc j)))
                                          RetryConnectInternal, OpenSocket])
                              [0..<maxReconnectAttempts c0]))"
    by (simp add: c0)
  have "socketClosed code reason ?cM
              = (?cM\<lparr>ws := Some CLOSED, isConnecting := False\<rparr>,
                 [RejectConnect (''Failed to connect after '' @ showNat (maxReconnectAttempts c0)
                                  @ '' attempts: Connection closed'')])"
    using p by (simp add: socketClosed_def onClose_def c0)
  with r show ?thesis by blast
qed

theorem reconnect_exhaustion_witness:
  "snd (run (\<lambda>_. True) (closesBeforeOpen 2 1006 None)
          (fst (connect (\<lambda>_. True) (newPersonaPlexClient (exampleOptions 2)))))
     = [SetTimeout 1500 RetryConnectInternal, OpenSocket, SetTimeout 2250 RetryConnectInternal, OpenSocket]
   \<and> snd (socketClosed 1006 None
            (fst (run (\<lambda>_. True) (closesBeforeOpen 2 1006 None)
                    (fst (connect (\<lambda>_. True) (newPersonaPlexClient (exampleOptions 2)))))))
     = [RejectConnect ''Failed to connect after 2 attempts: Connection closed'']"
proof -
  let ?c0 = "fst (connect (\<lambda>_. True) (newPersonaPlexClient (exampleOptions 2)))"
  have u: "(\<lambda>_. True) (url (opt_config (exampleOptions 2)))" by simp
  have m: "maxReconnectAttempts ?c0 = 2"
    by code_simp
  have d: "reconnectDelay ?c0 = 1000"
    by code_simp
  have e: "concat (map (\<lambda>j. [SetTimeout (fl (1000 * fl ((3 / 2) ^ Suc j))) RetryConnectInternal, OpenSocket])
                     [0..<2])
           = [SetTimeout 1500 RetryConnectInternal, OpenSocket,
              SetTimeout 2250 RetryConnectInternal, OpenSocket]"
    by code_simp
  have s: "''Failed to connect after '' @ showNat 2 @ '' attempts: Connection closed''
           = ''Failed to connect after 2 attempts: Connection closed''"
    by code_simp
  from reconnect_exhaustion [where isUrl = "\<lambda>_. True" and options = "exampleOptions 2"
                               and code = 1006 and reason = None, OF u]
  obtain cM where
    "run (\<lambda>_. True) (closesBeforeOpen 2 1006 None) ?c0
       = (cM, [SetTimeout 1500 RetryConnectInternal, OpenSocket,
               SetTimeout 2250 RetryConnectInternal, OpenSocket])"
    "socketClosed 1006 None cM
       = (cM\<lparr>ws := Some CLOSED, isConnecting := False\<rparr>,
          [RejectConnect ''Failed to connect after 2 attempts: Connection closed''])"
    unfolding m d e s by blast
  then show ?thesis by simp
qed

text \<open>
  C3, as it is stated, fails. With \<open>maxReconnectAttempts = 2\<close> the second close before
  the handshake rejects nothing: it sets the timer of the second retry. And when the
  sockets open before they close, the \<open>open\<close> listener puts the counter back to 0: with
  \<open>maxReconnectAttempts = 1\<close>, three closes before the handshake in a row reject nothing.
\<close>

theorem no_rejection_after_max_closes:
  "snd (run (\<lambda>_. True) [WsClose 1006 None, TimerFires RetryConnectInternal, WsClose 1006 None]
          (fst (connect (\<lambda>_. True) (newPersonaPlexClient (exampleOptions 2)))))
     = [SetTimeout 1500 RetryConnectInternal, OpenSocket, SetTimeout 2250 RetryConnectInternal]
   \<and> snd (run (\<lambda>_. True) [WsOpen, WsClose 1006 None, TimerFires RetryConnectInternal,
                           WsOpen, WsClose 1006 None, TimerFires RetryConnectInternal,
                           WsOpen, WsClose 1006 None]
          (fst (connect (\<lambda>_. True) (newPersonaPlexClient (exampleOptions 1)))))
     = [Emit EvConnected, SetTimeout 1500 RetryConnectInternal, OpenSocket,
        Emit EvConnected, SetTimeout 1500 RetryConnectInternal, OpenSocket,
        Emit EvConnected, SetTimeout 1500 RetryConnectInternal]"
  by code_simp






section \<open>Properties of \<open>VoiceBot\<close>\<close>

text \<open>
  Once \<open>isSessionActive\<close> is false, nothing the client emits makes the bot emit
  \<open>ended\<close>: the only listener that does so is guarded by the flag.
\<close>

lemma botListener_inactive:
  "\<not> isSessionActive b \<Longrightarrow>
     \<not> isSessionActive (fst (botListener decode ev b)) \<and> BotEnded \<notin> set (snd (botListener decode ev b))"
  by (cases ev) (auto simp: botListener_def split: option.splits)

lemma deliver_inactive:
  "\<not> isSessionActive b \<Longrightarrow>
     \<not> isSessionActive (fst (deliver decode effs b)) \<and> BotEnded \<notin> set (snd (deliver decode effs b))"
proof (induction effs arbitrary: b)
  case Nil
  then show ?case by simp
next
  case (Cons e effs)
  show ?case
  proof (cases e)
    case (Emit ev)
    from botListener_inactive [OF Cons.prems, of decode ev]
    have l: "\<not> isSessionActive (fst (botListener decode ev b))"
        "BotEnded \<notin> set (snd (botListener decode ev b))"
      by simp_all
    from Cons.IH [OF l(1)] l(2) Emit show ?thesis
      by (simp add: split_beta)
  qed (use Cons in simp_all)
qed

lemma botClientInput_inactive:
  "\<not> isSessionActive b \<Longrightarrow>
     \<not> isSessionActive (fst (botClientInput decode isUrl i b))
     \<and> BotEnded \<notin> set (snd (botClientInput decode isUrl i b))"
  using deliver_inactive [of "b\<lparr>personaplexClient := Some c1\<rparr>" for c1]
  by (auto simp: botClientInput_def split_beta split: option.splits)

lemma botClientInputs_inactive:
  "\<not> isSessionActive b \<Longrightarrow>
     \<not> isSessionActive (fst (botClientInputs decode isUrl is b))
     \<and> BotEnded \<notin> set (snd (botClientInputs decode isUrl is b))"
proof (induction "is" arbitrary: b)
  case Nil
  then show ?case by simp
next
  case (Cons i "is")
  from botClientInput_inactive [OF Cons.prems, of decode isUrl i]
  have l: "\<not> isSessionActive (fst (botClientInput decode isUrl i b))"
      "BotEnded \<notin> set (snd (botClientInput decode isUrl i b))"
    by simp_all
  from Cons.IH [OF l(1)] l(2) show ?case
    by (simp add: split_beta)
qed

lemma cleanup_inactive:
  "\<not> isSessionActive b \<Longrightarrow>
     \<not> isSessionActive (fst (cleanup decode isUrl during code reason b))
     \<and> BotEnded \<notin> set (snd (cleanup decode isUrl during code reason b))"
  using botClientInputs_inactive [of b decode isUrl]
  by (auto simp: cleanup_def split_beta split: option.splits)

text \<open>
  C8. On a bot whose session is active, \<open>endSession\<close> emits \<open>ended\<close> once, as its last
  event, whatever the client emits while its socket closes; a second \<open>endSession\<close>
  returns without an event, without an error and without a change. The flag is cleared
  before the first \<open>await\<close>, so a second call made while the first one waits finds
  \<open>isSessionActive\<close> false, and any call that finds it false returns at once. On a bot
  whose session never started, \<open>endSession\<close> does nothing.
\<close>

theorem endSession_idempotent:
  "(isSessionActive b \<longrightarrow>
      (\<exists>b1 out. endSession decode isUrl during code reason b = (b1, out @ [BotEnded])
         \<and> BotEnded \<notin> set out
         \<and> endSession decode isUrl during' code' reason' b1 = (b1, [])))
   \<and> (\<not> isSessionActive b \<longrightarrow> endSession decode isUrl during code reason b = (b, []))
   \<and> endSession decode isUrl during code reason (newVoiceBot cfg) = (newVoiceBot cfg, [])"
proof (intro conjI impI)
  assume a: "isSessionActive b"
  let ?r = "cleanup decode isUrl during code reason (b\<lparr>isSessionActive := False\<rparr>)"
  have "\<not> isSessionActive (b\<lparr>isSessionActive := False\<rparr>)" by simp
  from cleanup_inactive [OF this, of decode isUrl during code reason]
  have c: "\<not> isSessionActive (fst ?r)" "BotEnded \<notin> set (snd ?r)"
    by simp_all
  from a have "endSession decode isUrl during code reason b = (fst ?r, snd ?r @ [BotEnded])"
    by (simp add: endSession_def split_beta)
  moreover from c(1) have "endSession decode isUrl during' code' reason' (fst ?r) = (fst ?r, [])"
    by (simp add: endSession_def)
  ultimately show "\<exists>b1 out. endSession decode isUrl during code reason b = (b1, out @ [BotEnded])
         \<and> BotEnded \<notin> set out
         \<and> endSession decode isUrl during' code' reason' b1 = (b1, [])"
    using c(2) by blast
next
  assume "\<not> isSessionActive b"
  then show "endSession decode isUrl during code reason b = (b, [])"
    by (simp add: endSession_def)
next
  show "endSession decode isUrl during code reason (newVoiceBot cfg) = (newVoiceBot cfg, [])"
    by (simp add: endSession_def newVoiceBot_def)
qed

theorem endSession_idempotent_witness:
  "endSession (\<lambda>_. None) (\<lambda>_. True) [[0x02, 0x41]] 1000 None activeBot
     = ((newVoiceBot (opt_config (exampleOptions 30)))\<lparr>opusCodec := False\<rparr>, [BotText ''A'', BotEnded])
   \<and> endSession (\<lambda>_. None) (\<lambda>_. True) [] 1000 None
        ((newVoiceBot (opt_config (exampleOptions 30)))\<lparr>opusCodec := False\<rparr>)
     = ((newVoiceBot (opt_config (exampleOptions 30)))\<lparr>opusCodec := False\<rparr>, [])"
proof -
  have a: "isSessionActive activeBot"
    by (simp add: activeBot_def)
  have e: "endSession (\<lambda>_. None) (\<lambda>_. True) [[0x02, 0x41]] 1000 None activeBot
     = ((newVoiceBot (opt_config (exampleOptions 30)))\<lparr>opusCodec := False\<rparr>, [BotText ''A''] @ [BotEnded])"
    by code_simp
  from endSession_idempotent [of activeBot "\<lambda>_. None" "\<lambda>_. True" "[[0x02, 0x41]]" 1000 None
                                 "[]" 1000 None] a e
  show ?thesis by auto
qed

end
